theory Spec2Isabelle
  imports Complex_Main
begin

section \<open>The image canvas component (ng-image-canvas.component.ts)\<close>

text \<open>
  A shallow embedding of \<^verbatim>\<open>CanvasComponent\<close>. The component is a mutable object; every
  handler becomes a function from the component state to the new state.

  Numbers. JavaScript numbers are IEEE doubles. Every finite double is a rational number, and
  the embedding computes over \<^typ>\<open>rat\<close> exactly: rounding is not modelled. The fields of
  an image hold rationals. The value of a division is a \<open>jsnum\<close>, which may be an infinity
  or NaN as in JavaScript; such a value can be a local (the aspect ratio of a resize), and a
  finite number computed from it is stored as usual. Only a handler that would store an
  infinity or NaN in a field ends in \<open>Inl NotFinite\<close>: that run lies outside the model.

  Exceptions. Reading a property of \<^verbatim>\<open>undefined\<close> throws a TypeError. A handler that throws
  returns \<open>Inl TypeError\<close>; at each place where the source can throw, no field of the
  component has been assigned yet, so the state after the exception is the state before.
\<close>

subsection \<open>Data\<close>

text \<open>
  \<^verbatim>\<open>DraggableImage\<close> (utils/draggable-image.ts). The fields \<^verbatim>\<open>x\<close>, \<^verbatim>\<open>y\<close>, \<^verbatim>\<open>width\<close>,
  \<^verbatim>\<open>height\<close> are \<open>imgX\<close>, \<open>imgY\<close>, \<open>imgWidth\<close>, \<open>imgHeight\<close> here (the component has
  \<^verbatim>\<open>width\<close> and \<^verbatim>\<open>height\<close> of its own). The three optional fields are options, \<open>None\<close>
  for \<^verbatim>\<open>undefined\<close>. \<open>img\<close> is the handle of the decoded \<^verbatim>\<open>HTMLImageElement\<close>.

  The registry is a list of image values: each entry is an object of its own. An array handed
  to \<^verbatim>\<open>setImages\<close> that holds the same object twice is not represented.
\<close>

record DraggableImage =
  img :: nat
  imgX :: rat
  imgY :: rat
  imgWidth :: rat
  imgHeight :: rat
  isResizing :: "bool option"
  initialWidth :: "rat option"
  initialHeight :: "rat option"

text \<open>The calls the component makes on its \<^verbatim>\<open>CanvasRenderingContext2D\<close>, in order.\<close>

datatype ctxCall =
    ClearRect rat rat rat rat
  | DrawImage nat rat rat rat rat
  | SetFillStyle string
  | SetFont string
  | FillRect rat rat rat rat
  | FillText string rat rat

text \<open>
  The fields of the component. \<open>ctx\<close> is \<open>None\<close> until \<^verbatim>\<open>ngOnInit\<close> has run, then the
  list of calls made on the context so far. \<open>imagesChange\<close> is the list of values emitted so
  far, each the contents of \<^verbatim>\<open>this.images\<close> at the moment of the emission.
  \<open>selectedImageIndex\<close> is \<open>None\<close> for \<^verbatim>\<open>null\<close>; \<^verbatim>\<open>findIndex\<close> stores \<open>-1\<close> in it when
  nothing matches.
\<close>

record CanvasComponent =
  width :: rat
  height :: rat
  editing :: bool
  resizeHandleSize :: rat
  resizeHandleColor :: string
  closeButtonSize :: rat
  closeButtonBackgroundColor :: string
  closeButtonFontColor :: string
  imagesChange :: "DraggableImage list list"
  ctx :: "ctxCall list option"
  images :: "DraggableImage list"
  selectedImageIndex :: "int option"
  offsetX :: rat
  offsetY :: rat
  isDragging :: bool
  isShiftPressed :: bool

datatype error = TypeError | NotFinite

text \<open>The component as constructed: the field initialisers of the class.\<close>

definition newComponent :: CanvasComponent where
  "newComponent =
     \<lparr> width = 800, height = 600, editing = True,
       resizeHandleSize = 10, resizeHandleColor = ''gray'',
       closeButtonSize = 20, closeButtonBackgroundColor = ''red'',
       closeButtonFontColor = ''white'',
       imagesChange = [], ctx = None, images = [], selectedImageIndex = None,
       offsetX = 0, offsetY = 0, isDragging = False, isShiftPressed = False \<rparr>"

subsection \<open>JavaScript primitives\<close>

text \<open>
  The value of an arithmetic expression: a finite number, an infinity or NaN. The sign of an
  infinity (and of a zero) is not recorded: an infinity is either a divisor, where both
  signs give the quotient zero, or a value to be stored, which ends the handler.
\<close>

datatype jsnum = Num rat | Infinite | NaN

text \<open>\<^verbatim>\<open>a / b\<close> on finite numbers: \<open>0 / 0\<close> is NaN, any other \<open>a / 0\<close> is an infinity.\<close>

definition jsdiv :: "rat \<Rightarrow> rat \<Rightarrow> jsnum" where
  "jsdiv a b = (if b \<noteq> 0 then Num (a / b) else if a = 0 then NaN else Infinite)"

text \<open>\<^verbatim>\<open>a! / b!\<close> on optional operands: \<^verbatim>\<open>undefined\<close> makes the quotient NaN.\<close>

definition jsdivOpt :: "rat option \<Rightarrow> rat option \<Rightarrow> jsnum" where
  "jsdivOpt a b =
     (case a of None \<Rightarrow> NaN
      | Some u \<Rightarrow> (case b of None \<Rightarrow> NaN | Some v \<Rightarrow> jsdiv u v))"

text \<open>
  \<^verbatim>\<open>a / d\<close> for a finite \<open>a\<close> and a divisor that need not be finite: a finite number
  divided by an infinity is zero.
\<close>

definition jsdivBy :: "rat \<Rightarrow> jsnum \<Rightarrow> jsnum" where
  "jsdivBy a d = (case d of Num b \<Rightarrow> jsdiv a b | Infinite \<Rightarrow> Num 0 | NaN \<Rightarrow> NaN)"

text \<open>\<^verbatim>\<open>v * c\<close> for a finite \<open>c\<close>: an infinity times zero is NaN.\<close>

definition jstimes :: "jsnum \<Rightarrow> rat \<Rightarrow> jsnum" where
  "jstimes v c =
     (case v of Num a \<Rightarrow> Num (a * c)
      | Infinite \<Rightarrow> (if c = 0 then NaN else Infinite)
      | NaN \<Rightarrow> NaN)"

text \<open>\<^verbatim>\<open>v || 0\<close>: \<^verbatim>\<open>undefined\<close> and \<open>0\<close> are falsy.\<close>

definition orZero :: "rat option \<Rightarrow> rat" where
  "orZero v = (case v of None \<Rightarrow> 0 | Some u \<Rightarrow> if u = 0 then 0 else u)"

text \<open>\<^verbatim>\<open>Array.prototype.findIndex\<close> with a callback that has no effect: \<open>-1\<close> for no match.\<close>

fun findIndex :: "('a \<Rightarrow> bool) \<Rightarrow> 'a list \<Rightarrow> int" where
  "findIndex P [] = -1"
| "findIndex P (a # as) =
     (if P a then 0
      else (let r = findIndex P as in if r = -1 then -1 else r + 1))"

text \<open>\<^verbatim>\<open>xs.splice(i, 1)\<close> for an index \<open>i \<ge> 0\<close>: removes the element at \<open>i\<close>, if any.\<close>

definition splice1 :: "nat \<Rightarrow> 'a list \<Rightarrow> 'a list" where
  "splice1 i xs = take i xs @ drop (Suc i) xs"

text \<open>
  \<^verbatim>\<open>xs[k]\<close> for an integer \<open>k\<close>: \<open>None\<close> (\<^verbatim>\<open>undefined\<close>) outside the array, in particular
  at \<open>-1\<close>.
\<close>

definition elemAt :: "'a list \<Rightarrow> int \<Rightarrow> 'a option" where
  "elemAt xs k = (if 0 \<le> k \<and> k < int (length xs) then Some (xs ! nat k) else None)"

subsection \<open>Drawing\<close>

definition drawResizeHandles :: "CanvasComponent \<Rightarrow> DraggableImage \<Rightarrow> ctxCall list" where
  "drawResizeHandles s im =
     [SetFillStyle (resizeHandleColor s),
      FillRect (imgX im + imgWidth im - resizeHandleSize s)
               (imgY im + imgHeight im - resizeHandleSize s)
               (resizeHandleSize s) (resizeHandleSize s)]"

definition drawCloseButton :: "CanvasComponent \<Rightarrow> DraggableImage \<Rightarrow> ctxCall list" where
  "drawCloseButton s im =
     [SetFillStyle (closeButtonBackgroundColor s),
      FillRect (imgX im + imgWidth im - closeButtonSize s) (imgY im)
               (closeButtonSize s) (closeButtonSize s),
      SetFillStyle (closeButtonFontColor s),
      SetFont ''16px Arial'',
      FillText ''x'' (imgX im + imgWidth im - closeButtonSize s / 2 - 4)
                     (imgY im + closeButtonSize s / 2 + 5)]"

definition drawOne :: "CanvasComponent \<Rightarrow> DraggableImage \<Rightarrow> ctxCall list" where
  "drawOne s draggableImage =
     DrawImage (img draggableImage) (imgX draggableImage) (imgY draggableImage)
               (imgWidth draggableImage) (imgHeight draggableImage)
     # (if editing s
        then drawResizeHandles s draggableImage @ drawCloseButton s draggableImage
        else [])"

definition drawImages :: "CanvasComponent \<Rightarrow> CanvasComponent" where
  "drawImages s =
     (case ctx s of
        None \<Rightarrow> s
      | Some calls \<Rightarrow>
          s\<lparr>ctx := Some (calls @ ClearRect 0 0 (width s) (height s)
                               # concat (map (drawOne s) (images s)))\<rparr>)"

definition emitImagesChange :: "CanvasComponent \<Rightarrow> CanvasComponent" where
  "emitImagesChange s = s\<lparr>imagesChange := imagesChange s @ [images s]\<rparr>"

subsection \<open>Lifecycle\<close>

text \<open>
  \<^verbatim>\<open>ngOnInit\<close>: obtains the context (the same one on every call) and draws. The size of
  the canvas element itself is not part of the model.
\<close>

definition ngOnInit :: "CanvasComponent \<Rightarrow> CanvasComponent" where
  "ngOnInit s =
     drawImages (s\<lparr>ctx := Some (case ctx s of None \<Rightarrow> [] | Some calls \<Rightarrow> calls)\<rparr>)"

definition resetInteractions :: "CanvasComponent \<Rightarrow> CanvasComponent" where
  "resetInteractions s =
     s\<lparr>selectedImageIndex := None,
       isDragging := False,
       images := map (\<lambda>im. im\<lparr>isResizing := Some False\<rparr>) (images s)\<rparr>"

text \<open>
  \<^verbatim>\<open>ngOnChanges(changes)\<close>: \<open>changes\<close> is the list of the names of the inputs that
  changed; \<^verbatim>\<open>changes['editing']\<close> is truthy exactly when \<open>editing\<close> is among them.
\<close>

definition ngOnChanges :: "CanvasComponent \<Rightarrow> string list \<Rightarrow> CanvasComponent" where
  "ngOnChanges s changes =
     (if ''editing'' \<in> set changes then drawImages (resetInteractions s) else s)"

text \<open>
  The host framework changes an input by assigning the field and then calling
  \<^verbatim>\<open>ngOnChanges\<close> with the names of the inputs it assigned.
\<close>

datatype input =
    InWidth rat
  | InHeight rat
  | InEditing bool
  | InResizeHandleSize rat
  | InResizeHandleColor string
  | InCloseButtonSize rat
  | InCloseButtonBackgroundColor string
  | InCloseButtonFontColor string

fun assignInput :: "CanvasComponent \<Rightarrow> input \<Rightarrow> CanvasComponent" where
  "assignInput s (InWidth v) = s\<lparr>width := v\<rparr>"
| "assignInput s (InHeight v) = s\<lparr>height := v\<rparr>"
| "assignInput s (InEditing v) = s\<lparr>editing := v\<rparr>"
| "assignInput s (InResizeHandleSize v) = s\<lparr>resizeHandleSize := v\<rparr>"
| "assignInput s (InResizeHandleColor v) = s\<lparr>resizeHandleColor := v\<rparr>"
| "assignInput s (InCloseButtonSize v) = s\<lparr>closeButtonSize := v\<rparr>"
| "assignInput s (InCloseButtonBackgroundColor v) = s\<lparr>closeButtonBackgroundColor := v\<rparr>"
| "assignInput s (InCloseButtonFontColor v) = s\<lparr>closeButtonFontColor := v\<rparr>"

fun inputName :: "input \<Rightarrow> string" where
  "inputName (InWidth v) = ''width''"
| "inputName (InHeight v) = ''height''"
| "inputName (InEditing v) = ''editing''"
| "inputName (InResizeHandleSize v) = ''resizeHandleSize''"
| "inputName (InResizeHandleColor v) = ''resizeHandleColor''"
| "inputName (InCloseButtonSize v) = ''closeButtonSize''"
| "inputName (InCloseButtonBackgroundColor v) = ''closeButtonBackgroundColor''"
| "inputName (InCloseButtonFontColor v) = ''closeButtonFontColor''"

definition inputsChanged :: "CanvasComponent \<Rightarrow> input list \<Rightarrow> CanvasComponent" where
  "inputsChanged s ins = ngOnChanges (foldl assignInput s ins) (map inputName ins)"

subsection \<open>Drop\<close>

record DataTransfer =
  files :: "nat list"

record DragEvent =
  dataTransfer :: "DataTransfer option"

text \<open>
  \<^verbatim>\<open>onDrop(event)\<close>, the part that runs when the event is dispatched. It assigns no field
  of the component. The result is the file handed to \<^verbatim>\<open>reader.readAsDataURL\<close>, or \<open>None\<close>
  when the handler returns at its guard. \<^verbatim>\<open>event.preventDefault()\<close> comes before the guard
  and throws on a \<^verbatim>\<open>null\<close> event. \<^verbatim>\<open>files[0]\<close> of an empty file list is \<^verbatim>\<open>undefined\<close>, and
  \<^verbatim>\<open>readAsDataURL\<close> throws a TypeError on an argument that is not a Blob.
\<close>

definition onDrop :: "CanvasComponent \<Rightarrow> DragEvent option \<Rightarrow> error + nat option" where
  "onDrop s event =
     (case event of
        None \<Rightarrow> Inl TypeError
      | Some ev \<Rightarrow>
          if \<not> editing s \<or> event = None \<or> dataTransfer ev = None then Inr None
          else (case dataTransfer ev of
                  None \<Rightarrow> Inr None
                | Some dt \<Rightarrow>
                    (case files dt of
                       [] \<Rightarrow> Inl TypeError
                     | file # _ \<Rightarrow> Inr (Some file))))"

text \<open>
  The \<^verbatim>\<open>img.onload\<close> callback that \<^verbatim>\<open>onDrop\<close> installs, run when the file has been read and
  decoded: \<open>h\<close> is the handle of the decoded image, \<open>w0\<close> and \<open>h0\<close> are \<^verbatim>\<open>img.width\<close> and
  \<^verbatim>\<open>img.height\<close>. The new image has no \<^verbatim>\<open>isResizing\<close>, \<^verbatim>\<open>initialWidth\<close> or
  \<^verbatim>\<open>initialHeight\<close>.
\<close>

definition imgOnload :: "CanvasComponent \<Rightarrow> nat \<Rightarrow> rat \<Rightarrow> rat \<Rightarrow> error + CanvasComponent" where
  "imgOnload s h w0 h0 =
     (let w = (if w0 \<le> width s then w0 else 100) in
      case (if h0 \<le> height s then Num h0 else jstimes (jsdiv h0 w0) 100) of
        Num hh \<Rightarrow>
          (let draggableImage =
                 \<lparr> img = h, imgX = 0, imgY = 0, imgWidth = w, imgHeight = hh,
                   isResizing = None, initialWidth = None, initialHeight = None \<rparr>
           in Inr (emitImagesChange
                     (drawImages (s\<lparr>images := images s @ [draggableImage]\<rparr>))))
      | _ \<Rightarrow> Inl NotFinite)"

subsection \<open>Pointer handlers\<close>

definition inCloseButton :: "CanvasComponent \<Rightarrow> rat \<Rightarrow> rat \<Rightarrow> DraggableImage \<Rightarrow> bool" where
  "inCloseButton s ox oy im =
     (let cbx = imgX im + imgWidth im - closeButtonSize s;
          cby = imgY im;
          cbw = closeButtonSize s;
          cbh = closeButtonSize s
      in ox \<ge> cbx \<and> ox \<le> cbx + cbw \<and> oy \<ge> cby \<and> oy \<le> cby + cbh)"

definition inImageBounds :: "rat \<Rightarrow> rat \<Rightarrow> DraggableImage \<Rightarrow> bool" where
  "inImageBounds ox oy im =
     (ox \<ge> imgX im \<and> ox \<le> imgX im + imgWidth im \<and>
      oy \<ge> imgY im \<and> oy \<le> imgY im + imgHeight im)"

definition inResizeBounds :: "CanvasComponent \<Rightarrow> rat \<Rightarrow> rat \<Rightarrow> DraggableImage \<Rightarrow> bool" where
  "inResizeBounds s ox oy im =
     (ox \<ge> imgX im + imgWidth im - resizeHandleSize s \<and>
      ox \<le> imgX im + imgWidth im \<and>
      oy \<ge> imgY im + imgHeight im - resizeHandleSize s \<and>
      oy \<le> imgY im + imgHeight im)"

definition markResizing :: "DraggableImage \<Rightarrow> DraggableImage" where
  "markResizing im =
     im\<lparr>isResizing := Some True,
        initialWidth := Some (imgWidth im),
        initialHeight := Some (imgHeight im)\<rparr>"

text \<open>
  The second \<^verbatim>\<open>findIndex\<close> of \<^verbatim>\<open>onMouseDown\<close>. Its callback assigns to the image it is
  looking at, so the scan returns the array as the callback leaves it together with the
  index: every image visited, up to and including the first one whose body holds the point,
  is marked when its resize handle holds the point.
\<close>

fun findIndexMarking ::
  "CanvasComponent \<Rightarrow> rat \<Rightarrow> rat \<Rightarrow> DraggableImage list \<Rightarrow> DraggableImage list \<times> int" where
  "findIndexMarking s ox oy [] = ([], -1)"
| "findIndexMarking s ox oy (im # rest) =
     (let im' = (if inResizeBounds s ox oy im then markResizing im else im) in
      if inImageBounds ox oy im then (im' # rest, 0)
      else (case findIndexMarking s ox oy rest of
              (rest', r) \<Rightarrow> (im' # rest', if r = -1 then -1 else r + 1)))"

definition onMouseDown :: "CanvasComponent \<Rightarrow> rat \<times> rat \<Rightarrow> CanvasComponent" where
  "onMouseDown s event =
     (if \<not> editing s then s
      else
        (case event of (ox, oy) \<Rightarrow>
          (let k = findIndex (inCloseButton s ox oy) (images s) in
           if k \<noteq> -1 then
             emitImagesChange
               (drawImages (s\<lparr>images := splice1 (nat k) (images s),
                              selectedImageIndex := None\<rparr>))
           else
             (case findIndexMarking s ox oy (images s) of
                (imgs, k2) \<Rightarrow>
                  (let s1 = s\<lparr>images := imgs, selectedImageIndex := Some k2\<rparr> in
                   if k2 \<noteq> -1 then
                     (let im = imgs ! nat k2 in
                      s1\<lparr>offsetX := ox - imgX im,
                         offsetY := oy - imgY im,
                         isDragging := True\<rparr>)
                   else s1)))))"

definition onMouseMove :: "CanvasComponent \<Rightarrow> rat \<times> rat \<Rightarrow> error + CanvasComponent" where
  "onMouseMove s event =
     (case selectedImageIndex s of
        None \<Rightarrow> Inr s
      | Some k \<Rightarrow>
          (case event of (ox, oy) \<Rightarrow>
            (case elemAt (images s) k of
               None \<Rightarrow> Inl TypeError
             | Some im \<Rightarrow>
                 if isResizing im = Some True then
                   (let aspectRatio = jsdivOpt (initialWidth im) (initialHeight im) in
                    if isShiftPressed s then
                      (let newWidth = max 10 (orZero (initialWidth im)
                                       + (ox - imgX im - orZero (initialWidth im))) in
                       case jsdivBy newWidth aspectRatio of
                         Num newHeight \<Rightarrow>
                           Inr (drawImages
                                  (s\<lparr>images := (images s)
                                       [nat k := im\<lparr>imgWidth := newWidth,
                                                   imgHeight := newHeight\<rparr>]\<rparr>))
                       | _ \<Rightarrow> Inl NotFinite)
                    else
                      Inr (drawImages
                             (s\<lparr>images := (images s)
                                  [nat k := im
                                     \<lparr>imgWidth := max 10 (orZero (initialWidth im)
                                          + (ox - imgX im - orZero (initialWidth im))),
                                      imgHeight := max 10 (orZero (initialHeight im)
                                          + (oy - imgY im - orZero (initialHeight im)))\<rparr>]\<rparr>)))
                 else if isDragging s then
                   Inr (drawImages
                          (s\<lparr>images := (images s)
                               [nat k := im
                                  \<lparr>imgX := min (max 0 (ox - offsetX s)) (width s - imgWidth im),
                                   imgY := min (max 0 (oy - offsetY s))
                                               (height s - imgHeight im)\<rparr>]\<rparr>))
                 else Inr (drawImages s))))"

definition onMouseUp :: "CanvasComponent \<Rightarrow> error + CanvasComponent" where
  "onMouseUp s =
     (case selectedImageIndex s of
        None \<Rightarrow> Inr (s\<lparr>selectedImageIndex := None, isDragging := False\<rparr>)
      | Some k \<Rightarrow>
          (case elemAt (images s) k of
             None \<Rightarrow> Inl TypeError
           | Some im \<Rightarrow>
               Inr (s\<lparr>images := (images s)[nat k := im\<lparr>isResizing := Some False\<rparr>],
                      selectedImageIndex := None,
                      isDragging := False\<rparr>)))"

subsection \<open>Keys, and the public methods\<close>

definition onKeyDown :: "CanvasComponent \<Rightarrow> string \<Rightarrow> CanvasComponent" where
  "onKeyDown s key = (if key = ''Shift'' then s\<lparr>isShiftPressed := True\<rparr> else s)"

definition onKeyUp :: "CanvasComponent \<Rightarrow> string \<Rightarrow> CanvasComponent" where
  "onKeyUp s key = (if key = ''Shift'' then s\<lparr>isShiftPressed := False\<rparr> else s)"

definition getImages :: "CanvasComponent \<Rightarrow> DraggableImage list" where
  "getImages s = images s"

definition setImages :: "CanvasComponent \<Rightarrow> DraggableImage list \<Rightarrow> CanvasComponent" where
  "setImages s imgs = drawImages (s\<lparr>images := imgs\<rparr>)"

subsection \<open>Sequences of events\<close>

text \<open>
  Everything that can happen to a component. \<open>ImgLoad\<close> is the completion of a decode
  that some earlier drop started.
\<close>

datatype event =
    Init
  | Inputs "input list"
  | Drop "DragEvent option"
  | ImgLoad nat rat rat
  | MouseDown rat rat
  | MouseMove rat rat
  | MouseUp
  | KeyDown string
  | KeyUp string
  | SetImages "DraggableImage list"

fun dispatch :: "CanvasComponent \<Rightarrow> event \<Rightarrow> error + CanvasComponent" where
  "dispatch s Init = Inr (ngOnInit s)"
| "dispatch s (Inputs ins) = Inr (inputsChanged s ins)"
| "dispatch s (Drop ev) = (case onDrop s ev of Inl e \<Rightarrow> Inl e | Inr _ \<Rightarrow> Inr s)"
| "dispatch s (ImgLoad h w0 h0) = imgOnload s h w0 h0"
| "dispatch s (MouseDown ox oy) = Inr (onMouseDown s (ox, oy))"
| "dispatch s (MouseMove ox oy) = onMouseMove s (ox, oy)"
| "dispatch s MouseUp = onMouseUp s"
| "dispatch s (KeyDown key) = Inr (onKeyDown s key)"
| "dispatch s (KeyUp key) = Inr (onKeyUp s key)"
| "dispatch s (SetImages imgs) = Inr (setImages s imgs)"

text \<open>
  A handler that throws leaves the component as it was, and the next event is dispatched
  on that state. A run that computes a number that is not finite has no value here.
\<close>

fun run :: "CanvasComponent \<Rightarrow> event list \<Rightarrow> CanvasComponent option" where
  "run s [] = Some s"
| "run s (e # es) =
     (case dispatch s e of
        Inr s' \<Rightarrow> run s' es
      | Inl TypeError \<Rightarrow> run s es
      | Inl NotFinite \<Rightarrow> None)"

subsection \<open>Example states\<close>

text \<open>
  A 100 by 40 image whose resize handle has just been pressed at \<open>(95, 35)\<close>, on the default
  800 by 600 surface.
\<close>

definition resizingImage :: DraggableImage where
  "resizingImage =
     \<lparr> img = 1, imgX = 0, imgY = 0, imgWidth = 100, imgHeight = 40,
       isResizing = Some True, initialWidth = Some 100, initialHeight = Some 40 \<rparr>"

definition resizingState :: CanvasComponent where
  "resizingState =
     newComponent\<lparr>ctx := Some [], images := [resizingImage], selectedImageIndex := Some 0,
                  offsetX := 95, offsetY := 35, isDragging := True\<rparr>"

text \<open>A 100 by 1000 image, taller than the surface, whose body has been pressed at \<open>(50, 50)\<close>.\<close>

definition tallImage :: DraggableImage where
  "tallImage =
     \<lparr> img = 1, imgX = 0, imgY = 0, imgWidth = 100, imgHeight = 1000,
       isResizing = None, initialWidth = None, initialHeight = None \<rparr>"

definition draggingState :: CanvasComponent where
  "draggingState =
     newComponent\<lparr>ctx := Some [], images := [tallImage], selectedImageIndex := Some 0,
                  offsetX := 50, offsetY := 50, isDragging := True\<rparr>"

text \<open>The same state with Shift held.\<close>

definition shiftResizingState :: CanvasComponent where
  "shiftResizingState = resizingState\<lparr>isShiftPressed := True\<rparr>"

text \<open>The pointer-moves of a gesture, as events.\<close>

definition moveEvents :: "(rat \<times> rat) list \<Rightarrow> event list" where
  "moveEvents ps = map (\<lambda>(ox, oy). MouseMove ox oy) ps"

text \<open>Two 100 by 100 images as dropped, one over the other at the origin.\<close>

definition squareImage :: "nat \<Rightarrow> DraggableImage" where
  "squareImage h =
     \<lparr> img = h, imgX = 0, imgY = 0, imgWidth = 100, imgHeight = 100,
       isResizing = None, initialWidth = None, initialHeight = None \<rparr>"

definition twoImagesState :: CanvasComponent where
  "twoImagesState = newComponent\<lparr>ctx := Some [], images := [squareImage 1, squareImage 2]\<rparr>"

section \<open>Properties\<close>

subsection \<open>Auxiliary facts\<close>

lemma drawImages_fields:
  "images (drawImages s) = images s"
  "selectedImageIndex (drawImages s) = selectedImageIndex s"
  "isDragging (drawImages s) = isDragging s"
  "isShiftPressed (drawImages s) = isShiftPressed s"
  "editing (drawImages s) = editing s"
  "width (drawImages s) = width s"
  "height (drawImages s) = height s"
  "offsetX (drawImages s) = offsetX s"
  "offsetY (drawImages s) = offsetY s"
  "imagesChange (drawImages s) = imagesChange s"
  "resizeHandleSize (drawImages s) = resizeHandleSize s"
  "closeButtonSize (drawImages s) = closeButtonSize s"
  by (simp_all add: drawImages_def split: option.splits)

lemma drawImages_ctx:
  "ctx (drawImages s) =
     map_option (\<lambda>calls. calls @ ClearRect 0 0 (width s) (height s)
                              # concat (map (drawOne s) (images s))) (ctx s)"
  by (simp add: drawImages_def split: option.splits)

lemma drawImages_eq: "drawImages s = s\<lparr>ctx := ctx (drawImages s)\<rparr>"
  by (simp add: drawImages_def split: option.splits)

lemma elemAt_Some: "elemAt xs k = Some a \<Longrightarrow> 0 \<le> k \<and> nat k < length xs \<and> xs ! nat k = a"
  by (auto simp: elemAt_def split: if_splits)

lemma orZero_cancel: "orZero v + (a - b - orZero v) = a - b"
  by simp

lemma onMouseMove_None: "selectedImageIndex s = None \<Longrightarrow> onMouseMove s e = Inr s"
  by (simp add: onMouseMove_def)

lemma onMouseMove_Inr:
  assumes "onMouseMove s (ox, oy) = Inr s'" and "selectedImageIndex s = Some k"
  obtains im im' where
    "elemAt (images s) k = Some im"
    "s' = drawImages (s\<lparr>images := (images s)[nat k := im']\<rparr>)"
    "isResizing im = Some True \<Longrightarrow> \<not> isShiftPressed s \<Longrightarrow>
       im' = im\<lparr>imgWidth := max 10 (ox - imgX im), imgHeight := max 10 (oy - imgY im)\<rparr>"
    "isResizing im = Some True \<Longrightarrow> isShiftPressed s \<Longrightarrow>
       \<exists>h. jsdivBy (max 10 (ox - imgX im))
                    (jsdivOpt (initialWidth im) (initialHeight im)) = Num h \<and>
           im' = im\<lparr>imgWidth := max 10 (ox - imgX im), imgHeight := h\<rparr>"
    "isResizing im \<noteq> Some True \<Longrightarrow> isDragging s \<Longrightarrow>
       im' = im\<lparr>imgX := min (max 0 (ox - offsetX s)) (width s - imgWidth im),
                 imgY := min (max 0 (oy - offsetY s)) (height s - imgHeight im)\<rparr>"
    "isResizing im \<noteq> Some True \<Longrightarrow> \<not> isDragging s \<Longrightarrow> im' = im"
proof -
  from assms obtain im where im: "elemAt (images s) k = Some im"
    by (auto simp: onMouseMove_def split: option.splits)
  then have idx: "(images s)[nat k := im] = images s"
    by (auto dest: elemAt_Some)
  consider (rs) "isResizing im = Some True" "isShiftPressed s"
    | (rn) "isResizing im = Some True" "\<not> isShiftPressed s"
    | (dr) "isResizing im \<noteq> Some True" "isDragging s"
    | (no) "isResizing im \<noteq> Some True" "\<not> isDragging s"
    by blast
  then show thesis
  proof cases
    case rs
    with assms im obtain h where
      h: "jsdivBy (max 10 (ox - imgX im))
            (jsdivOpt (initialWidth im) (initialHeight im)) = Num h"
      and s': "s' = drawImages (s\<lparr>images := (images s)
                 [nat k := im\<lparr>imgWidth := max 10 (ox - imgX im), imgHeight := h\<rparr>]\<rparr>)"
      by (auto simp: onMouseMove_def Let_def orZero_cancel split: option.splits jsnum.splits)
    with rs im show thesis
      by (intro that[of im "im\<lparr>imgWidth := max 10 (ox - imgX im), imgHeight := h\<rparr>"]) auto
  next
    case rn
    with assms im have
      "s' = drawImages (s\<lparr>images := (images s)
              [nat k := im\<lparr>imgWidth := max 10 (ox - imgX im),
                          imgHeight := max 10 (oy - imgY im)\<rparr>]\<rparr>)"
      by (auto simp: onMouseMove_def Let_def orZero_cancel split: option.splits)
    with rn im show thesis
      by (intro that[of im "im\<lparr>imgWidth := max 10 (ox - imgX im),
                               imgHeight := max 10 (oy - imgY im)\<rparr>"]) auto
  next
    case dr
    with assms im have
      "s' = drawImages (s\<lparr>images := (images s)
              [nat k := im\<lparr>imgX := min (max 0 (ox - offsetX s)) (width s - imgWidth im),
                          imgY := min (max 0 (oy - offsetY s)) (height s - imgHeight im)\<rparr>]\<rparr>)"
      by (auto simp: onMouseMove_def Let_def split: option.splits)
    with dr im show thesis
      by (intro that[of im "im\<lparr>imgX := min (max 0 (ox - offsetX s)) (width s - imgWidth im),
                 imgY := min (max 0 (oy - offsetY s)) (height s - imgHeight im)\<rparr>"]) auto
  next
    case no
    with assms im have "s' = drawImages s"
      by (auto simp: onMouseMove_def Let_def split: option.splits)
    with no im idx show thesis
      by (intro that[of im im]) auto
  qed
qed

lemmas model_defs =
  newComponent_def ngOnInit_def drawImages_def onDrop_def imgOnload_def emitImagesChange_def
  drawOne_def drawResizeHandles_def drawCloseButton_def onMouseDown_def onMouseMove_def
  onMouseUp_def inCloseButton_def inImageBounds_def inResizeBounds_def markResizing_def
  elemAt_def splice1_def jsdiv_def jsdivOpt_def jsdivBy_def jstimes_def orZero_def
  onKeyDown_def onKeyUp_def
  setImages_def inputsChanged_def ngOnChanges_def resetInteractions_def Let_def

lemma resizingState_reachable:
  "map_option (\<lambda>s. s\<lparr>ctx := Some [], imagesChange := []\<rparr>)
     (run newComponent [Init, ImgLoad 1 100 40, MouseDown 95 35]) = Some resizingState"
  by (simp add: model_defs resizingState_def resizingImage_def)

lemma draggingState_reachable:
  "map_option (\<lambda>s. s\<lparr>ctx := Some [], imagesChange := []\<rparr>)
     (run newComponent [Init, ImgLoad 1 100 1000, MouseDown 50 50]) = Some draggingState"
  by (simp add: model_defs draggingState_def tallImage_def)

subsection \<open>C1: minimum size during a resize\<close>

text \<open>
  With Shift held the height is derived from the width and is not floored. A 100 by 40 image
  is dropped on the default surface, its resize handle is pressed at \<open>(95, 35)\<close>, Shift goes
  down and the pointer moves to \<open>(20, 35)\<close>: the image is then 20 wide and 8 high.
\<close>

theorem resize_below_minimum_counterexample:
  "map_option (\<lambda>s. map (\<lambda>im. (imgWidth im, imgHeight im)) (images s))
     (run newComponent
        [Init, ImgLoad 1 100 40, MouseDown 95 35, KeyDown ''Shift'', MouseMove 20 35])
   = Some [(20, 8)]"
  by (simp add: model_defs)

text \<open>
  The height that the Shift branch stores: with a snapshot width that is not zero it is the
  finite number \<open>w * ih / iw\<close> (zero when the snapshot height is zero, since the aspect ratio
  is then an infinity); with a missing snapshot or a zero snapshot width it is NaN or an
  infinity.
\<close>

lemma shift_height_finite:
  "iw \<noteq> 0 \<Longrightarrow> jsdivBy w (jsdivOpt (Some iw) (Some ih)) = Num (w * ih / iw)"
  by (simp add: jsdivBy_def jsdivOpt_def jsdiv_def)

lemma shift_height_not_finite:
  "w \<noteq> 0 \<Longrightarrow> a = None \<or> a = Some 0 \<or> b = None \<Longrightarrow> jsdivBy w (jsdivOpt a b) \<noteq> Num h"
  by (auto simp: jsdivBy_def jsdivOpt_def jsdiv_def split: option.splits)

lemma onMouseMove_resize_plain:
  assumes "selectedImageIndex s = Some k"
    and "elemAt (images s) k = Some im"
    and "isResizing im = Some True"
    and "\<not> isShiftPressed s"
  shows "onMouseMove s (ox, oy) =
           Inr (drawImages (s\<lparr>images := (images s)
                  [nat k := im\<lparr>imgWidth := max 10 (ox - imgX im),
                              imgHeight := max 10 (oy - imgY im)\<rparr>]\<rparr>))"
  using assms by (simp add: onMouseMove_def Let_def orZero_cancel)

lemma onMouseMove_resize_shift:
  assumes "selectedImageIndex s = Some k"
    and "elemAt (images s) k = Some im"
    and "isResizing im = Some True"
    and "isShiftPressed s"
    and "initialWidth im = Some iw"
    and "initialHeight im = Some ih"
    and "iw \<noteq> 0"
  shows "onMouseMove s (ox, oy) =
           Inr (drawImages (s\<lparr>images := (images s)
                  [nat k := im\<lparr>imgWidth := max 10 (ox - imgX im),
                              imgHeight := max 10 (ox - imgX im) * ih / iw\<rparr>]\<rparr>))"
  using assms
  by (simp add: onMouseMove_def Let_def orZero_cancel shift_height_finite)

lemma onMouseMove_resize_shift_not_finite:
  assumes "selectedImageIndex s = Some k"
    and "elemAt (images s) k = Some im"
    and "isResizing im = Some True"
    and "isShiftPressed s"
    and "initialWidth im = None \<or> initialWidth im = Some 0 \<or> initialHeight im = None"
  shows "onMouseMove s (ox, oy) = Inl NotFinite"
proof -
  have "max 10 (ox - imgX im) \<noteq> 0" by simp
  from shift_height_not_finite[OF this assms(5)]
  have "\<And>h. jsdivBy (max 10 (ox - imgX im))
              (jsdivOpt (initialWidth im) (initialHeight im)) \<noteq> Num h" .
  then show ?thesis
    using assms(1-4)
    by (simp add: onMouseMove_def Let_def orZero_cancel split: jsnum.splits)
qed

lemma updated_nth:
  "elemAt xs k = Some a \<Longrightarrow> images (drawImages (s\<lparr>images := xs[nat k := b]\<rparr>)) ! nat k = b"
  by (auto simp: drawImages_fields dest: elemAt_Some)

text \<open>
  C1, amended. For every pointer-move processed while a resize is active (the selected image
  has \<open>isResizing = true\<close>) and whatever the pointer position: when Shift is not held, the
  handler stores \<open>width = max(10, pointerX - x)\<close> and \<open>height = max(10, pointerY - y)\<close>, both
  at least 10. When Shift is held and the snapshot width is a number other than zero, the
  handler stores the same width, at least 10, and \<open>height = width * initialHeight /
  initialWidth\<close>, that is the width divided by the frozen ratio, with no floor of its own:
  the height can be below 10. When Shift is held and the snapshot is missing or its width
  is zero, the height the code stores is NaN or an infinity.
\<close>

theorem resize_minimum_size:
  assumes "selectedImageIndex s = Some k"
    and "elemAt (images s) k = Some im"
    and "isResizing im = Some True"
  shows "(\<not> isShiftPressed s \<longrightarrow>
            (\<exists>s'. onMouseMove s (ox, oy) = Inr s' \<and>
               imgWidth (images s' ! nat k) = max 10 (ox - imgX im) \<and>
               imgHeight (images s' ! nat k) = max 10 (oy - imgY im) \<and>
               10 \<le> imgWidth (images s' ! nat k) \<and>
               10 \<le> imgHeight (images s' ! nat k))) \<and>
         (isShiftPressed s \<longrightarrow>
            (\<forall>iw ih. initialWidth im = Some iw \<and> initialHeight im = Some ih \<and> iw \<noteq> 0 \<longrightarrow>
               (\<exists>s'. onMouseMove s (ox, oy) = Inr s' \<and>
                  imgWidth (images s' ! nat k) = max 10 (ox - imgX im) \<and>
                  10 \<le> imgWidth (images s' ! nat k) \<and>
                  imgHeight (images s' ! nat k) = imgWidth (images s' ! nat k) * ih / iw))) \<and>
         (isShiftPressed s \<and>
            (initialWidth im = None \<or> initialWidth im = Some 0 \<or> initialHeight im = None) \<longrightarrow>
            onMouseMove s (ox, oy) = Inl NotFinite)"
proof (intro conjI impI allI)
  assume n: "\<not> isShiftPressed s"
  show "\<exists>s'. onMouseMove s (ox, oy) = Inr s' \<and>
               imgWidth (images s' ! nat k) = max 10 (ox - imgX im) \<and>
               imgHeight (images s' ! nat k) = max 10 (oy - imgY im) \<and>
               10 \<le> imgWidth (images s' ! nat k) \<and>
               10 \<le> imgHeight (images s' ! nat k)"
    by (rule exI, rule conjI, rule onMouseMove_resize_plain[OF assms n])
       (simp add: updated_nth[OF assms(2)])
next
  fix iw ih
  assume sh: "isShiftPressed s"
    and "initialWidth im = Some iw \<and> initialHeight im = Some ih \<and> iw \<noteq> 0"
  then have i: "initialWidth im = Some iw" "initialHeight im = Some ih" "iw \<noteq> 0"
    by simp_all
  show "\<exists>s'. onMouseMove s (ox, oy) = Inr s' \<and>
                  imgWidth (images s' ! nat k) = max 10 (ox - imgX im) \<and>
                  10 \<le> imgWidth (images s' ! nat k) \<and>
                  imgHeight (images s' ! nat k) = imgWidth (images s' ! nat k) * ih / iw"
    by (rule exI, rule conjI, rule onMouseMove_resize_shift[OF assms sh i])
       (simp add: updated_nth[OF assms(2)])
next
  assume "isShiftPressed s \<and>
            (initialWidth im = None \<or> initialWidth im = Some 0 \<or> initialHeight im = None)"
  then show "onMouseMove s (ox, oy) = Inl NotFinite"
    using onMouseMove_resize_shift_not_finite[OF assms] by blast
qed

theorem resize_minimum_size_witness:
  "selectedImageIndex shiftResizingState = Some 0 \<and>
   elemAt (images shiftResizingState) 0 = Some resizingImage \<and>
   isResizing resizingImage = Some True \<and>
   isShiftPressed shiftResizingState \<and>
   initialWidth resizingImage = Some 100 \<and> initialHeight resizingImage = Some 40 \<and>
   (\<exists>s'. onMouseMove shiftResizingState (20, 35) = Inr s' \<and>
         imgWidth (images s' ! nat 0) = 20 \<and> imgHeight (images s' ! nat 0) = 8) \<and>
   \<not> isShiftPressed resizingState \<and>
   (\<exists>s'. onMouseMove resizingState (5, 5) = Inr s' \<and>
         imgWidth (images s' ! nat 0) = 10 \<and> imgHeight (images s' ! nat 0) = 10)"
proof -
  have h: "selectedImageIndex shiftResizingState = Some 0"
    "elemAt (images shiftResizingState) 0 = Some resizingImage"
    "isResizing resizingImage = Some True"
    by (simp_all add: shiftResizingState_def resizingState_def resizingImage_def
        newComponent_def elemAt_def)
  have g: "selectedImageIndex resizingState = Some 0"
    "elemAt (images resizingState) 0 = Some resizingImage"
    by (simp_all add: resizingState_def resizingImage_def newComponent_def elemAt_def)
  have f: "isShiftPressed shiftResizingState" "\<not> isShiftPressed resizingState"
    "initialWidth resizingImage = Some 100" "initialHeight resizingImage = Some 40"
    "imgX resizingImage = 0" "imgY resizingImage = 0"
    by (simp_all add: shiftResizingState_def resizingState_def resizingImage_def
        newComponent_def)
  from resize_minimum_size[OF h, of 20 35] f
  have 1: "\<exists>s'. onMouseMove shiftResizingState (20, 35) = Inr s' \<and>
         imgWidth (images s' ! nat 0) = 20 \<and> imgHeight (images s' ! nat 0) = 8"
    by auto
  from resize_minimum_size[OF g h(3), of 5 5] f
  have 2: "\<exists>s'. onMouseMove resizingState (5, 5) = Inr s' \<and>
         imgWidth (images s' ! nat 0) = 10 \<and> imgHeight (images s' ! nat 0) = 10"
    by auto
  from h f 1 2 show ?thesis by blast
qed

text \<open>
  A snapshot of height zero: the aspect ratio is an infinity and the stored height is zero.
\<close>

lemma zero_height_snapshot_resize:
  "map_option (\<lambda>s. map (\<lambda>im. (imgWidth im, imgHeight im)) (images s))
     (run newComponent
        [Init,
         SetImages [resizingImage\<lparr>imgHeight := 0, initialHeight := Some 0\<rparr>],
         MouseDown 50 0, KeyDown ''Shift'', MouseMove 50 20])
   = Some [(50, 0)]"
  by (simp add: model_defs resizingImage_def)

subsection \<open>C2: clamping during a drag\<close>

text \<open>
  An image taller than the surface cannot satisfy both bounds. A 100 by 1000 image is dropped
  on the 800 by 600 surface (its width fits, and the fallback height is \<open>1000 / 100 * 100\<close>),
  its body is pressed at \<open>(50, 50)\<close> and the pointer moves to \<open>(60, 60)\<close>: the image is then
  at \<open>y = -400\<close>.
\<close>

theorem drag_off_surface_counterexample:
  "map_option (\<lambda>s. map (\<lambda>im. (imgY im, imgHeight im, height s)) (images s))
     (run newComponent [Init, ImgLoad 1 100 1000, MouseDown 50 50, MouseMove 60 60])
   = Some [(- 400, 1000, 600)]"
  by (simp add: model_defs)

text \<open>
  C2, amended. For every pointer-move processed while a drag is active (the selected image is
  not resizing and the dragging flag is set), wherever the pointer is: the handler returns,
  the size of the image is unchanged, and the resulting position satisfies
  \<open>x \<le> surfaceWidth - width\<close> and \<open>y \<le> surfaceHeight - height\<close>. Moreover \<open>0 \<le> x\<close> when
  the image is no wider than the surface, and \<open>0 \<le> y\<close> when it is no taller; an image wider
  (taller) than the surface is put at \<open>x = surfaceWidth - width\<close> (\<open>y = surfaceHeight - height\<close>),
  which is negative.
\<close>

theorem drag_clamped:
  assumes "selectedImageIndex s = Some k"
    and "elemAt (images s) k = Some im"
    and "isResizing im \<noteq> Some True"
    and "isDragging s"
  shows "\<exists>s'. onMouseMove s (ox, oy) = Inr s' \<and>
           imgWidth (images s' ! nat k) = imgWidth im \<and>
           imgHeight (images s' ! nat k) = imgHeight im \<and>
           imgX (images s' ! nat k) \<le> width s' - imgWidth (images s' ! nat k) \<and>
           imgY (images s' ! nat k) \<le> height s' - imgHeight (images s' ! nat k) \<and>
           (imgWidth im \<le> width s \<longrightarrow> 0 \<le> imgX (images s' ! nat k)) \<and>
           (imgHeight im \<le> height s \<longrightarrow> 0 \<le> imgY (images s' ! nat k)) \<and>
           (width s < imgWidth im \<longrightarrow> imgX (images s' ! nat k) = width s - imgWidth im) \<and>
           (height s < imgHeight im \<longrightarrow> imgY (images s' ! nat k) = height s - imgHeight im)"
proof -
  let ?im' = "im\<lparr>imgX := min (max 0 (ox - offsetX s)) (width s - imgWidth im),
                 imgY := min (max 0 (oy - offsetY s)) (height s - imgHeight im)\<rparr>"
  let ?s' = "drawImages (s\<lparr>images := (images s)[nat k := ?im']\<rparr>)"
  from assms have m: "onMouseMove s (ox, oy) = Inr ?s'"
    by (simp add: onMouseMove_def)
  from assms(2) have k: "nat k < length (images s)" by (auto dest: elemAt_Some)
  have at: "images ?s' ! nat k = ?im'" using k by (simp add: drawImages_fields)
  have wh: "width ?s' = width s" "height ?s' = height s" by (simp_all add: drawImages_fields)
  have p: "imgWidth ?im' = imgWidth im \<and>
           imgHeight ?im' = imgHeight im \<and>
           imgX ?im' \<le> width s - imgWidth ?im' \<and>
           imgY ?im' \<le> height s - imgHeight ?im' \<and>
           (imgWidth im \<le> width s \<longrightarrow> 0 \<le> imgX ?im') \<and>
           (imgHeight im \<le> height s \<longrightarrow> 0 \<le> imgY ?im') \<and>
           (width s < imgWidth im \<longrightarrow> imgX ?im' = width s - imgWidth im) \<and>
           (height s < imgHeight im \<longrightarrow> imgY ?im' = height s - imgHeight im)"
    by (simp add: min_def max_def)
  show ?thesis
    by (rule exI[of _ ?s'], rule conjI, rule m, unfold at wh, rule p)
qed

theorem drag_clamped_witness:
  "selectedImageIndex draggingState = Some 0 \<and>
   elemAt (images draggingState) 0 = Some tallImage \<and>
   isResizing tallImage \<noteq> Some True \<and>
   isDragging draggingState \<and>
   (\<exists>s'. onMouseMove draggingState (900, 60) = Inr s' \<and>
         imgX (images s' ! nat 0) = 700 \<and> imgY (images s' ! nat 0) = - 400)"
proof -
  have h: "selectedImageIndex draggingState = Some 0"
    "elemAt (images draggingState) 0 = Some tallImage"
    "isResizing tallImage \<noteq> Some True"
    "isDragging draggingState"
    by (simp_all add: draggingState_def tallImage_def newComponent_def elemAt_def)
  have "onMouseMove draggingState (900, 60) =
          Inr (drawImages (draggingState\<lparr>images :=
                 [tallImage\<lparr>imgX := 700, imgY := - 400\<rparr>]\<rparr>))"
    by (simp add: onMouseMove_def elemAt_def draggingState_def tallImage_def newComponent_def)
  with h drag_clamped[OF h, of 900 60] show ?thesis
    by (simp add: drawImages_fields)
qed

subsection \<open>C8: the editing toggle\<close>

text \<open>
  C8. Whenever \<^verbatim>\<open>ngOnChanges\<close> reports a change of the \<open>editing\<close> input, in either
  direction and in any state (also in the middle of a gesture): the selection is cleared,
  the dragging flag is cleared, \<open>isResizing\<close> is false for every image of the registry and
  nothing else of an image changes, and nothing is emitted. Then the surface is redrawn:
  when the context exists, the calls made on it are a \<^verbatim>\<open>clearRect\<close> of the whole surface
  and then, for every image in sequence order, a \<^verbatim>\<open>drawImage\<close> at its position and size,
  followed, when editing is enabled, by the resize handle (fill style, square at the
  bottom-right corner) and the close button (fill style, square at the top-right corner,
  fill style, font and the glyph).
\<close>

theorem editing_change_resets:
  assumes "''editing'' \<in> set changes"
  shows "selectedImageIndex (ngOnChanges s changes) = None \<and>
         isDragging (ngOnChanges s changes) = False \<and>
         images (ngOnChanges s changes) = map (\<lambda>im. im\<lparr>isResizing := Some False\<rparr>) (images s) \<and>
         (\<forall>im \<in> set (images (ngOnChanges s changes)). isResizing im = Some False) \<and>
         imagesChange (ngOnChanges s changes) = imagesChange s \<and>
         ctx (ngOnChanges s changes) =
           map_option
             (\<lambda>calls. calls @ ClearRect 0 0 (width s) (height s) #
                concat (map (\<lambda>im.
                  DrawImage (img im) (imgX im) (imgY im) (imgWidth im) (imgHeight im) #
                  (if editing s
                   then [SetFillStyle (resizeHandleColor s),
                         FillRect (imgX im + imgWidth im - resizeHandleSize s)
                                  (imgY im + imgHeight im - resizeHandleSize s)
                                  (resizeHandleSize s) (resizeHandleSize s),
                         SetFillStyle (closeButtonBackgroundColor s),
                         FillRect (imgX im + imgWidth im - closeButtonSize s) (imgY im)
                                  (closeButtonSize s) (closeButtonSize s),
                         SetFillStyle (closeButtonFontColor s),
                         SetFont ''16px Arial'',
                         FillText ''x'' (imgX im + imgWidth im - closeButtonSize s / 2 - 4)
                                        (imgY im + closeButtonSize s / 2 + 5)]
                   else [])) (images s)))
             (ctx s)"
proof -
  have r: "ngOnChanges s changes = drawImages (resetInteractions s)"
    using assms by (simp add: ngOnChanges_def)
  have i: "images (resetInteractions s) = map (\<lambda>im. im\<lparr>isResizing := Some False\<rparr>) (images s)"
    by (simp add: resetInteractions_def)
  have f: "selectedImageIndex (resetInteractions s) = None"
    "isDragging (resetInteractions s) = False"
    "imagesChange (resetInteractions s) = imagesChange s"
    "ctx (resetInteractions s) = ctx s"
    "width (resetInteractions s) = width s" "height (resetInteractions s) = height s"
    by (simp_all add: resetInteractions_def)
  have d: "drawOne (resetInteractions s) (im\<lparr>isResizing := Some False\<rparr>) =
      DrawImage (img im) (imgX im) (imgY im) (imgWidth im) (imgHeight im) #
      (if editing s
       then [SetFillStyle (resizeHandleColor s),
             FillRect (imgX im + imgWidth im - resizeHandleSize s)
                      (imgY im + imgHeight im - resizeHandleSize s)
                      (resizeHandleSize s) (resizeHandleSize s),
             SetFillStyle (closeButtonBackgroundColor s),
             FillRect (imgX im + imgWidth im - closeButtonSize s) (imgY im)
                      (closeButtonSize s) (closeButtonSize s),
             SetFillStyle (closeButtonFontColor s),
             SetFont ''16px Arial'',
             FillText ''x'' (imgX im + imgWidth im - closeButtonSize s / 2 - 4)
                            (imgY im + closeButtonSize s / 2 + 5)]
       else [])" for im
    by (simp add: drawOne_def drawResizeHandles_def drawCloseButton_def resetInteractions_def)
  have c: "ctx (ngOnChanges s changes) =
      map_option
        (\<lambda>calls. calls @ ClearRect 0 0 (width s) (height s) #
           concat (map (\<lambda>im. drawOne (resetInteractions s) (im\<lparr>isResizing := Some False\<rparr>))
                    (images s)))
        (ctx s)"
    unfolding r drawImages_ctx f i by (simp add: comp_def)
  show ?thesis
    unfolding c[unfolded d]
    unfolding r drawImages_fields f i
    by simp
qed

theorem editing_change_resets_witness:
  "''editing'' \<in> set [''editing''] \<and>
   selectedImageIndex (ngOnChanges resizingState [''editing'']) = None \<and>
   isDragging (ngOnChanges resizingState [''editing'']) = False \<and>
   images (ngOnChanges resizingState [''editing''])
     = [resizingImage\<lparr>isResizing := Some False\<rparr>] \<and>
   ctx (ngOnChanges resizingState [''editing''])
     = Some [ClearRect 0 0 800 600, DrawImage 1 0 0 100 40,
             SetFillStyle ''gray'', FillRect 90 30 10 10,
             SetFillStyle ''red'', FillRect 80 0 20 20,
             SetFillStyle ''white'', SetFont ''16px Arial'', FillText ''x'' 86 15]"
  using editing_change_resets[of "[''editing'']" resizingState]
  by (simp add: resizingState_def resizingImage_def newComponent_def)

subsection \<open>C10: what a pointer-move changes\<close>

text \<open>
  C10. A pointer-move that returns changes only the registry and the drawing context of the
  component. The registry keeps its length, and every entry other than the selected one is
  as it was. The selected entry changes only in \<open>width\<close> and \<open>height\<close> when it is resizing,
  only in \<open>x\<close> and \<open>y\<close> when it is being dragged, and not at all otherwise.
\<close>

theorem move_frame:
  assumes "onMouseMove s (ox, oy) = Inr s'"
  shows "s' = s\<lparr>images := images s', ctx := ctx s'\<rparr> \<and>
         length (images s') = length (images s) \<and>
         (\<forall>j < length (images s). selectedImageIndex s \<noteq> Some (int j) \<longrightarrow>
              images s' ! j = images s ! j) \<and>
         (\<forall>k im. selectedImageIndex s = Some k \<and> elemAt (images s) k = Some im \<longrightarrow>
            (isResizing im = Some True \<longrightarrow>
               images s' = (images s)[nat k := im\<lparr>imgWidth := imgWidth (images s' ! nat k),
                                                 imgHeight := imgHeight (images s' ! nat k)\<rparr>]) \<and>
            (isResizing im \<noteq> Some True \<and> isDragging s \<longrightarrow>
               images s' = (images s)[nat k := im\<lparr>imgX := imgX (images s' ! nat k),
                                                 imgY := imgY (images s' ! nat k)\<rparr>]) \<and>
            (isResizing im \<noteq> Some True \<and> \<not> isDragging s \<longrightarrow> images s' = images s))"
proof (cases "selectedImageIndex s")
  case None
  with assms have "s' = s" by (simp add: onMouseMove_None)
  with None show ?thesis by simp
next
  case (Some k)
  from onMouseMove_Inr[OF assms Some] obtain im im' where
    im: "elemAt (images s) k = Some im"
    and s': "s' = drawImages (s\<lparr>images := (images s)[nat k := im']\<rparr>)"
    and rn: "isResizing im = Some True \<Longrightarrow> \<not> isShiftPressed s \<Longrightarrow>
       im' = im\<lparr>imgWidth := max 10 (ox - imgX im), imgHeight := max 10 (oy - imgY im)\<rparr>"
    and rs: "isResizing im = Some True \<Longrightarrow> isShiftPressed s \<Longrightarrow>
       \<exists>h. jsdivBy (max 10 (ox - imgX im))
                    (jsdivOpt (initialWidth im) (initialHeight im)) = Num h \<and>
           im' = im\<lparr>imgWidth := max 10 (ox - imgX im), imgHeight := h\<rparr>"
    and dr: "isResizing im \<noteq> Some True \<Longrightarrow> isDragging s \<Longrightarrow>
       im' = im\<lparr>imgX := min (max 0 (ox - offsetX s)) (width s - imgWidth im),
                 imgY := min (max 0 (oy - offsetY s)) (height s - imgHeight im)\<rparr>"
    and no: "isResizing im \<noteq> Some True \<Longrightarrow> \<not> isDragging s \<Longrightarrow> im' = im"
    by blast
  from im have k: "0 \<le> k" "nat k < length (images s)" "images s ! nat k = im"
    by (auto dest: elemAt_Some)
  have imgs: "images s' = (images s)[nat k := im']"
    by (simp add: s' drawImages_fields)
  have at: "images s' ! nat k = im'"
    using k by (simp add: imgs)
  have 1: "s' = s\<lparr>images := images s', ctx := ctx s'\<rparr>"
    by (subst s', subst drawImages_eq) (simp add: s' drawImages_fields)
  have 2: "length (images s') = length (images s)"
    by (simp add: imgs)
  have 3: "\<forall>j < length (images s). selectedImageIndex s \<noteq> Some (int j) \<longrightarrow>
              images s' ! j = images s ! j"
    using Some k by (auto simp: imgs nth_list_update)
  have 4: "isResizing im = Some True \<Longrightarrow>
      images s' = (images s)[nat k := im\<lparr>imgWidth := imgWidth im', imgHeight := imgHeight im'\<rparr>]"
    using rn rs by (cases "isShiftPressed s") (auto simp: imgs)
  have 5: "isResizing im \<noteq> Some True \<Longrightarrow> isDragging s \<Longrightarrow>
      images s' = (images s)[nat k := im\<lparr>imgX := imgX im', imgY := imgY im'\<rparr>]"
    using dr by (auto simp: imgs)
  have 6: "isResizing im \<noteq> Some True \<Longrightarrow> \<not> isDragging s \<Longrightarrow> images s' = images s"
    using no k by (auto simp: imgs)
  note r4 = 4[folded at] and r5 = 5[folded at]
  have 7: "\<forall>k im. selectedImageIndex s = Some k \<and> elemAt (images s) k = Some im \<longrightarrow>
            (isResizing im = Some True \<longrightarrow>
               images s' = (images s)[nat k := im\<lparr>imgWidth := imgWidth (images s' ! nat k),
                                                 imgHeight := imgHeight (images s' ! nat k)\<rparr>]) \<and>
            (isResizing im \<noteq> Some True \<and> isDragging s \<longrightarrow>
               images s' = (images s)[nat k := im\<lparr>imgX := imgX (images s' ! nat k),
                                                 imgY := imgY (images s' ! nat k)\<rparr>]) \<and>
            (isResizing im \<noteq> Some True \<and> \<not> isDragging s \<longrightarrow> images s' = images s)"
  proof (intro allI impI, elim conjE)
    fix k' im0
    assume "selectedImageIndex s = Some k'" "elemAt (images s) k' = Some im0"
    with Some im have e: "k' = k" "im0 = im" by simp_all
    show "(isResizing im0 = Some True \<longrightarrow>
               images s' = (images s)[nat k' := im0\<lparr>imgWidth := imgWidth (images s' ! nat k'),
                                                 imgHeight := imgHeight (images s' ! nat k')\<rparr>]) \<and>
            (isResizing im0 \<noteq> Some True \<and> isDragging s \<longrightarrow>
               images s' = (images s)[nat k' := im0\<lparr>imgX := imgX (images s' ! nat k'),
                                                 imgY := imgY (images s' ! nat k')\<rparr>]) \<and>
            (isResizing im0 \<noteq> Some True \<and> \<not> isDragging s \<longrightarrow> images s' = images s)"
      unfolding e
      by (intro conjI impI; (elim conjE)?; (rule r4 r5 6; assumption))
  qed
  show ?thesis
    by (intro conjI) (fact 1 2 3 7)+
qed

theorem move_frame_witness:
  "onMouseMove resizingState (5, 5) =
     Inr (drawImages (resizingState\<lparr>images :=
            [resizingImage\<lparr>imgWidth := 10, imgHeight := 10\<rparr>]\<rparr>)) \<and>
   length (images (drawImages (resizingState\<lparr>images :=
            [resizingImage\<lparr>imgWidth := 10, imgHeight := 10\<rparr>]\<rparr>))) = 1"
proof -
  have m: "onMouseMove resizingState (5, 5) =
          Inr (drawImages (resizingState\<lparr>images :=
                 [resizingImage\<lparr>imgWidth := 10, imgHeight := 10\<rparr>]\<rparr>))"
    by (simp add: onMouseMove_def elemAt_def orZero_def resizingState_def resizingImage_def
        newComponent_def)
  from move_frame[OF m] have
    "length (images (drawImages (resizingState\<lparr>images :=
            [resizingImage\<lparr>imgWidth := 10, imgHeight := 10\<rparr>]\<rparr>))) = length (images resizingState)"
    by blast
  with m show ?thesis by (simp add: resizingState_def)
qed

subsection \<open>C6: the aspect lock\<close>

text \<open>
  The start of a gesture: a pointer-down that misses every close button and selects an image
  sets the dragging flag, and when the point is in the resize handle of the selected image
  that image is marked with its current size as the snapshot.
\<close>

lemma findIndexMarking_hit:
  assumes "findIndexMarking s ox oy xs = (ys, r)" and "r \<noteq> - 1"
  shows "0 \<le> r \<and> nat r < length xs \<and> length ys = length xs \<and>
         inImageBounds ox oy (xs ! nat r) \<and>
         ys ! nat r = (if inResizeBounds s ox oy (xs ! nat r)
                       then markResizing (xs ! nat r) else xs ! nat r)"
  using assms
proof (induction xs arbitrary: ys r)
  case Nil
  then show ?case by simp
next
  case (Cons a xs)
  show ?case
  proof (cases "inImageBounds ox oy a")
    case True
    with Cons.prems show ?thesis by (auto simp: Let_def)
  next
    case False
    obtain ys' r' where rec: "findIndexMarking s ox oy xs = (ys', r')"
      by (cases "findIndexMarking s ox oy xs")
    with False Cons.prems have r: "r' \<noteq> - 1" "r = r' + 1"
      and ys: "ys = (if inResizeBounds s ox oy a then markResizing a else a) # ys'"
      by (auto simp: Let_def split: if_splits)
    from Cons.IH[OF rec r(1)] have ih:
      "0 \<le> r'" "nat r' < length xs" "length ys' = length xs"
      "inImageBounds ox oy (xs ! nat r')"
      "ys' ! nat r' = (if inResizeBounds s ox oy (xs ! nat r')
                       then markResizing (xs ! nat r') else xs ! nat r')"
      by auto
    from ih(1) r(2) have n: "nat r = Suc (nat r')" by simp
    from ih r(2) show ?thesis unfolding n ys by simp
  qed
qed

lemma findIndex_none: "\<forall>x \<in> set xs. \<not> P x \<Longrightarrow> findIndex P xs = - 1"
  by (induction xs) (simp_all add: Let_def)

lemma pointer_down_snapshot:
  assumes "editing s"
    and "\<forall>im \<in> set (images s). \<not> inCloseButton s ox oy im"
    and "selectedImageIndex (onMouseDown s (ox, oy)) = Some k"
    and "k \<noteq> - 1"
  shows "0 \<le> k \<and> nat k < length (images s) \<and>
         inImageBounds ox oy (images s ! nat k) \<and>
         isDragging (onMouseDown s (ox, oy)) \<and>
         (inResizeBounds s ox oy (images s ! nat k) \<longrightarrow>
            images (onMouseDown s (ox, oy)) ! nat k = markResizing (images s ! nat k))"
proof -
  have c: "findIndex (inCloseButton s ox oy) (images s) = - 1"
    using assms(2) by (rule findIndex_none)
  obtain ys r where m: "findIndexMarking s ox oy (images s) = (ys, r)"
    by (cases "findIndexMarking s ox oy (images s)")
  from assms(1) c m have d: "onMouseDown s (ox, oy) =
      (if r \<noteq> - 1
       then s\<lparr>images := ys, selectedImageIndex := Some r,
              offsetX := ox - imgX (ys ! nat r), offsetY := oy - imgY (ys ! nat r),
              isDragging := True\<rparr>
       else s\<lparr>images := ys, selectedImageIndex := Some r\<rparr>)"
    by (simp add: onMouseDown_def Let_def)
  from d assms(3) have k: "r = k" by (simp split: if_splits)
  from findIndexMarking_hit[OF m] assms(4) k d show ?thesis by simp
qed

text \<open>Any number of pointer-moves of a resize with Shift held.\<close>

lemma shift_resize_run:
  assumes "ps \<noteq> []"
    and "selectedImageIndex s = Some k"
    and "elemAt (images s) k = Some im"
    and "isResizing im = Some True"
    and "isShiftPressed s"
    and "initialWidth im = Some iw"
    and "initialHeight im = Some ih"
    and "iw \<noteq> 0"
  shows "\<exists>s'. run s (moveEvents ps) = Some s' \<and>
              selectedImageIndex s' = Some k \<and> isShiftPressed s' \<and>
              elemAt (images s') k =
                Some (im\<lparr>imgWidth := max 10 (fst (last ps) - imgX im),
                         imgHeight := max 10 (fst (last ps) - imgX im) * ih / iw\<rparr>)"
  using assms
proof (induction ps arbitrary: s im rule: list_nonempty_induct)
  case (single p)
  obtain ox oy where p: "p = (ox, oy)" by (cases p)
  let ?im' = "im\<lparr>imgWidth := max 10 (ox - imgX im),
                 imgHeight := max 10 (ox - imgX im) * ih / iw\<rparr>"
  let ?s' = "drawImages (s\<lparr>images := (images s)[nat k := ?im']\<rparr>)"
  have m: "onMouseMove s (ox, oy) = Inr ?s'"
    by (rule onMouseMove_resize_shift[OF single.prems])
  have "run s (moveEvents [p]) = Some ?s'"
    by (simp add: moveEvents_def p m)
  moreover have "elemAt (images ?s') k = Some ?im'"
    using single.prems(2) by (simp add: drawImages_fields elemAt_def split: if_splits)
  moreover have "selectedImageIndex ?s' = Some k" "isShiftPressed ?s'"
    using single.prems by (simp_all add: drawImages_fields)
  ultimately show ?case by (simp add: p)
next
  case (cons p ps)
  obtain ox oy where p: "p = (ox, oy)" by (cases p)
  let ?im1 = "im\<lparr>imgWidth := max 10 (ox - imgX im),
                 imgHeight := max 10 (ox - imgX im) * ih / iw\<rparr>"
  let ?s1 = "drawImages (s\<lparr>images := (images s)[nat k := ?im1]\<rparr>)"
  have m: "onMouseMove s (ox, oy) = Inr ?s1"
    by (rule onMouseMove_resize_shift[OF cons.prems])
  have r: "run s (moveEvents (p # ps)) = run ?s1 (moveEvents ps)"
    by (simp add: moveEvents_def p m)
  have a1: "selectedImageIndex ?s1 = Some k" "isShiftPressed ?s1"
    using cons.prems by (simp_all add: drawImages_fields)
  have a2: "elemAt (images ?s1) k = Some ?im1"
    using cons.prems(2) by (simp add: drawImages_fields elemAt_def split: if_splits)
  have a3: "isResizing ?im1 = Some True" "initialWidth ?im1 = Some iw"
    "initialHeight ?im1 = Some ih"
    using cons.prems by simp_all
  from cons.IH[OF a1(1) a2 a3(1) a1(2) a3(2) a3(3) cons.prems(7)]
  obtain s' where s':
    "run ?s1 (moveEvents ps) = Some s'" "selectedImageIndex s' = Some k" "isShiftPressed s'"
    "elemAt (images s') k =
       Some (?im1\<lparr>imgWidth := max 10 (fst (last ps) - imgX ?im1),
                  imgHeight := max 10 (fst (last ps) - imgX ?im1) * ih / iw\<rparr>)"
    by blast
  from s'(4) cons.hyps have
    "elemAt (images s') k =
       Some (im\<lparr>imgWidth := max 10 (fst (last (p # ps)) - imgX im),
                imgHeight := max 10 (fst (last (p # ps)) - imgX im) * ih / iw\<rparr>)"
    by simp
  with s'(1-3) r show ?case by simp
qed

text \<open>
  C6. Take a resize of the selected image with the snapshot \<open>initialWidth = iw \<noteq> 0\<close>,
  \<open>initialHeight = ih\<close>, and let Shift be held on every pointer-move of it. Every non-empty
  sequence of pointer-moves runs to its end; after it the image is still resizing with the
  same snapshot, its width is \<open>max(10, pointerX - x)\<close> for the last pointer position, and
  \<open>height * iw = width * ih\<close>. For a snapshot height other than zero this is
  \<open>width / height = iw / ih\<close> exactly, with a height that is not zero. The floor of 10 on
  the width does not disturb the ratio, since the height is derived from the floored width.
\<close>

theorem aspect_lock:
  assumes "selectedImageIndex s = Some k"
    and "elemAt (images s) k = Some im"
    and "isResizing im = Some True"
    and "initialWidth im = Some iw"
    and "initialHeight im = Some ih"
    and "iw \<noteq> 0"
    and "isShiftPressed s"
    and "ps \<noteq> []"
  shows "\<exists>s' im'. run s (moveEvents ps) = Some s' \<and>
            elemAt (images s') k = Some im' \<and> isResizing im' = Some True \<and>
            initialWidth im' = Some iw \<and> initialHeight im' = Some ih \<and>
            imgWidth im' = max 10 (fst (last ps) - imgX im) \<and>
            imgHeight im' * iw = imgWidth im' * ih \<and>
            (ih \<noteq> 0 \<longrightarrow> imgHeight im' \<noteq> 0 \<and> imgWidth im' / imgHeight im' = iw / ih)"
proof -
  let ?w = "max 10 (fst (last ps) - imgX im)"
  let ?im' = "im\<lparr>imgWidth := ?w, imgHeight := ?w * ih / iw\<rparr>"
  from shift_resize_run[OF assms(8) assms(1-3) assms(7) assms(4-6)]
  obtain s' where s': "run s (moveEvents ps) = Some s'" "elemAt (images s') k = Some ?im'"
    by blast
  have w: "?w \<noteq> 0" by simp
  have "isResizing ?im' = Some True \<and>
        initialWidth ?im' = Some iw \<and> initialHeight ?im' = Some ih \<and>
        imgWidth ?im' = ?w \<and>
        imgHeight ?im' * iw = imgWidth ?im' * ih \<and>
        (ih \<noteq> 0 \<longrightarrow> imgHeight ?im' \<noteq> 0 \<and> imgWidth ?im' / imgHeight ?im' = iw / ih)"
    using assms(3-6) w by simp
  with s' show ?thesis by blast
qed

theorem aspect_lock_witness:
  "selectedImageIndex shiftResizingState = Some 0 \<and>
   elemAt (images shiftResizingState) 0 = Some resizingImage \<and>
   isResizing resizingImage = Some True \<and>
   initialWidth resizingImage = Some 100 \<and>
   initialHeight resizingImage = Some 40 \<and>
   isShiftPressed shiftResizingState \<and>
   (\<exists>s' im'. run shiftResizingState (moveEvents [(200, 7), (3, 90)]) = Some s' \<and>
       elemAt (images s') 0 = Some im' \<and>
       imgWidth im' = 10 \<and> imgHeight im' = 4 \<and> imgWidth im' / imgHeight im' = 100 / 40)"
proof -
  have h: "selectedImageIndex shiftResizingState = Some 0"
    "elemAt (images shiftResizingState) 0 = Some resizingImage"
    "isResizing resizingImage = Some True"
    "initialWidth resizingImage = Some 100"
    "initialHeight resizingImage = Some 40"
    "(100 :: rat) \<noteq> 0"
    "isShiftPressed shiftResizingState"
    by (simp_all add: shiftResizingState_def resizingState_def resizingImage_def
        newComponent_def elemAt_def)
  have n: "[(200, 7), (3, 90)] \<noteq> ([] :: (rat \<times> rat) list)" by simp
  have x: "imgX resizingImage = 0" by (simp add: resizingImage_def)
  from aspect_lock[OF h n] obtain s' im' where
    r: "run shiftResizingState (moveEvents [(200, 7), (3, 90)]) = Some s'"
       "elemAt (images s') 0 = Some im'"
       "imgWidth im' = max 10 (fst (last [(200, 7), (3, 90 :: rat)]) - imgX resizingImage)"
       "imgHeight im' * 100 = imgWidth im' * 40"
       "imgWidth im' / imgHeight im' = 100 / 40"
    by auto
  from r(3) x have w: "imgWidth im' = 10" by simp
  with r(4) have "imgHeight im' = 4" by simp
  with r w h show ?thesis by blast
qed

lemma emitImagesChange_fields:
  "images (emitImagesChange s) = images s"
  "selectedImageIndex (emitImagesChange s) = selectedImageIndex s"
  "isDragging (emitImagesChange s) = isDragging s"
  "offsetX (emitImagesChange s) = offsetX s"
  "offsetY (emitImagesChange s) = offsetY s"
  "editing (emitImagesChange s) = editing s"
  "imagesChange (emitImagesChange s) = imagesChange s @ [images s]"
  by (simp_all add: emitImagesChange_def)

lemma twoImagesState_reachable:
  "map_option (\<lambda>s. s\<lparr>ctx := Some [], imagesChange := []\<rparr>)
     (run newComponent [Init, ImgLoad 1 100 100, ImgLoad 2 100 100]) = Some twoImagesState"
  by (simp add: model_defs twoImagesState_def squareImage_def)

subsection \<open>C3: the placement of a dropped image\<close>

text \<open>
  What the callback computes, for every image. It returns whenever \<open>h0 \<le> H\<close> or
  \<open>w0 \<noteq> 0\<close>; the image is appended at \<open>(0, 0)\<close> with \<open>width = w0\<close> if \<open>w0 \<le> W\<close> and \<open>100\<close>
  otherwise, and with \<open>height = h0\<close> if \<open>h0 \<le> H\<close> and \<open>h0 / w0 * 100\<close> otherwise, and the
  new registry is emitted. The proportions are kept when neither dimension fits and when
  both fit.
\<close>

lemma drop_placement:
  "(h0 \<le> height s \<or> w0 \<noteq> 0 \<longrightarrow> (\<exists>s'. imgOnload s h w0 h0 = Inr s')) \<and>
   (\<forall>s'. imgOnload s h w0 h0 = Inr s' \<longrightarrow>
      images s' = images s @
        [\<lparr> img = h, imgX = 0, imgY = 0,
           imgWidth = (if w0 \<le> width s then w0 else 100),
           imgHeight = (if h0 \<le> height s then h0 else h0 / w0 * 100),
           isResizing = None, initialWidth = None, initialHeight = None \<rparr>] \<and>
      imagesChange s' = imagesChange s @ [images s'] \<and>
      (width s < w0 \<and> height s < h0 \<longrightarrow>
         w0 \<noteq> 0 \<and> imgHeight (last (images s')) / imgWidth (last (images s')) = h0 / w0) \<and>
      (w0 \<le> width s \<and> h0 \<le> height s \<longrightarrow>
         imgWidth (last (images s')) = w0 \<and> imgHeight (last (images s')) = h0))"
  by (auto simp: imgOnload_def Let_def jsdiv_def jstimes_def drawImages_fields
      emitImagesChange_fields
      split: if_splits)

text \<open>
  C3. The fallback height \<open>h0 / w0 * 100\<close> is the height that keeps the proportions at the
  fallback width 100, but it is chosen by the test on the height alone. A 1600 by 1200 image
  on the default 800 by 600 surface gets both fallbacks and keeps its proportions
  (100 by 75). A 1600 by 300 image gets the fallback width and keeps its own height: it is
  placed 100 by 300. A 700 by 1400 image keeps its width and gets the fallback height: it
  is placed 700 by 200.
\<close>

theorem drop_distorts_aspect:
  "map_option (\<lambda>s. map (\<lambda>im. (imgX im, imgY im, imgWidth im, imgHeight im)) (images s))
     (run newComponent [Init, ImgLoad 1 1600 1200]) = Some [(0, 0, 100, 75)] \<and>
   map_option (\<lambda>s. map (\<lambda>im. (imgX im, imgY im, imgWidth im, imgHeight im)) (images s))
     (run newComponent [Init, ImgLoad 1 1600 300]) = Some [(0, 0, 100, 300)] \<and>
   map_option (\<lambda>s. map (\<lambda>im. (imgX im, imgY im, imgWidth im, imgHeight im)) (images s))
     (run newComponent [Init, ImgLoad 1 700 1400]) = Some [(0, 0, 700, 200)]"
  by (simp add: model_defs)

subsection \<open>C5: the close button\<close>

lemma findIndex_first:
  "\<exists>x \<in> set xs. P x \<Longrightarrow>
   \<exists>i < length xs. findIndex P xs = int i \<and> P (xs ! i) \<and> (\<forall>j < i. \<not> P (xs ! j))"
proof (induction xs)
  case Nil
  then show ?case by simp
next
  case (Cons a xs)
  show ?case
  proof (cases "P a")
    case True
    then show ?thesis by (intro exI[of _ 0]) simp
  next
    case False
    with Cons.prems have "\<exists>x \<in> set xs. P x" by simp
    from Cons.IH[OF this] obtain i where
      i: "i < length xs" "findIndex P xs = int i" "P (xs ! i)" "\<forall>j < i. \<not> P (xs ! j)"
      by blast
    have "\<forall>j < Suc i. \<not> P ((a # xs) ! j)"
      using False i(4) by (auto simp: nth_Cons split: nat.splits)
    with False i show ?thesis
      by (intro exI[of _ "Suc i"]) (simp add: Let_def)
  qed
qed

text \<open>
  C5. While editing is enabled (the close button exists only then), for every registry and
  every pointer-down that lies inside the close button of at least one image: the image
  removed is the first one, in sequence order, whose close button holds the point; every
  other entry stays as it was, in the same order; the new registry is emitted; the selection
  is empty, the dragging flag and the pointer offsets are untouched, so that no pointer-move
  that follows changes anything. The body and resize-handle test is not reached.
\<close>

theorem close_removes_first:
  assumes "editing s"
    and "\<exists>im \<in> set (images s). inCloseButton s ox oy im"
  shows "\<exists>i < length (images s).
           inCloseButton s ox oy (images s ! i) \<and>
           (\<forall>j < i. \<not> inCloseButton s ox oy (images s ! j)) \<and>
           images (onMouseDown s (ox, oy)) = take i (images s) @ drop (Suc i) (images s) \<and>
           imagesChange (onMouseDown s (ox, oy))
             = imagesChange s @ [images (onMouseDown s (ox, oy))] \<and>
           selectedImageIndex (onMouseDown s (ox, oy)) = None \<and>
           isDragging (onMouseDown s (ox, oy)) = isDragging s \<and>
           offsetX (onMouseDown s (ox, oy)) = offsetX s \<and>
           offsetY (onMouseDown s (ox, oy)) = offsetY s \<and>
           (\<forall>e. onMouseMove (onMouseDown s (ox, oy)) e = Inr (onMouseDown s (ox, oy)))"
proof -
  from findIndex_first[OF assms(2)] obtain i where
    i: "i < length (images s)" "findIndex (inCloseButton s ox oy) (images s) = int i"
       "inCloseButton s ox oy (images s ! i)"
       "\<forall>j < i. \<not> inCloseButton s ox oy (images s ! j)"
    by blast
  let ?t = "s\<lparr>images := splice1 i (images s), selectedImageIndex := None\<rparr>"
  from assms(1) i(2) have d: "onMouseDown s (ox, oy) = emitImagesChange (drawImages ?t)"
    by (simp add: onMouseDown_def)
  have sel: "selectedImageIndex (onMouseDown s (ox, oy)) = None"
    by (simp add: d emitImagesChange_fields drawImages_fields)
  have "images (onMouseDown s (ox, oy)) = take i (images s) @ drop (Suc i) (images s) \<and>
        imagesChange (onMouseDown s (ox, oy))
             = imagesChange s @ [images (onMouseDown s (ox, oy))] \<and>
        isDragging (onMouseDown s (ox, oy)) = isDragging s \<and>
        offsetX (onMouseDown s (ox, oy)) = offsetX s \<and>
        offsetY (onMouseDown s (ox, oy)) = offsetY s"
    by (simp add: d emitImagesChange_fields drawImages_fields splice1_def)
  moreover have "\<forall>e. onMouseMove (onMouseDown s (ox, oy)) e = Inr (onMouseDown s (ox, oy))"
    using sel by (simp add: onMouseMove_None)
  ultimately show ?thesis using i sel by blast
qed

theorem close_removes_first_witness:
  "editing twoImagesState \<and>
   inCloseButton twoImagesState 90 10 (squareImage 1) \<and>
   inCloseButton twoImagesState 90 10 (squareImage 2) \<and>
   images (onMouseDown twoImagesState (90, 10)) = [squareImage 2] \<and>
   imagesChange (onMouseDown twoImagesState (90, 10)) = [[squareImage 2]] \<and>
   selectedImageIndex (onMouseDown twoImagesState (90, 10)) = None"
proof -
  have h1: "editing twoImagesState"
    by (simp add: twoImagesState_def newComponent_def)
  have h2: "\<exists>im \<in> set (images twoImagesState). inCloseButton twoImagesState 90 10 im"
    by (simp add: twoImagesState_def newComponent_def squareImage_def inCloseButton_def)
  from close_removes_first[OF h1 h2] h1 show ?thesis
    by (simp add: model_defs twoImagesState_def squareImage_def)
qed

subsection \<open>C9: a drop without a file\<close>

text \<open>
  C9. The guard of \<^verbatim>\<open>onDrop\<close> covers a missing \<^verbatim>\<open>dataTransfer\<close>, which is ignored
  silently, but not an empty file list: there \<^verbatim>\<open>files[0]\<close> is \<^verbatim>\<open>undefined\<close> and
  \<^verbatim>\<open>readAsDataURL\<close> throws.
\<close>

theorem drop_without_file_throws:
  assumes "editing s"
  shows "onDrop s (Some \<lparr>dataTransfer = Some \<lparr>files = []\<rparr>\<rparr>) = Inl TypeError \<and>
         onDrop s (Some \<lparr>dataTransfer = None\<rparr>) = Inr None \<and>
         run s [Drop (Some \<lparr>dataTransfer = Some \<lparr>files = []\<rparr>\<rparr>)] = Some s"
  using assms by (simp add: onDrop_def)

theorem drop_without_file_throws_witness:
  "editing newComponent \<and>
   onDrop newComponent (Some \<lparr>dataTransfer = Some \<lparr>files = []\<rparr>\<rparr>) = Inl TypeError"
proof -
  have h: "editing newComponent" by (simp add: newComponent_def)
  from drop_without_file_throws[OF h] h show ?thesis by simp
qed

subsection \<open>C7: pointer handlers while editing is disabled\<close>

lemma inputName_editing: "inputName i = ''editing'' \<longleftrightarrow> (\<exists>b. i = InEditing b)"
  by (cases i) simp_all

lemma assignInput_transient:
  "selectedImageIndex (assignInput s i) = selectedImageIndex s"
  "isDragging (assignInput s i) = isDragging s"
  by (cases i; simp)+

lemma assignInput_editing: "''editing'' \<noteq> inputName i \<Longrightarrow> editing (assignInput s i) = editing s"
  by (cases i) simp_all

lemma foldl_assignInput_transient:
  "selectedImageIndex (foldl assignInput s ins) = selectedImageIndex s \<and>
   isDragging (foldl assignInput s ins) = isDragging s"
  by (induction ins arbitrary: s) (simp_all add: assignInput_transient)

lemma foldl_assignInput_editing:
  "''editing'' \<notin> set (map inputName ins) \<Longrightarrow> editing (foldl assignInput s ins) = editing s"
  by (induction ins arbitrary: s) (simp_all add: assignInput_editing)

lemma inputsChanged_idle:
  assumes "editing s \<or> (selectedImageIndex s = None \<and> \<not> isDragging s)"
  shows "editing (inputsChanged s ins) \<or>
         (selectedImageIndex (inputsChanged s ins) = None \<and> \<not> isDragging (inputsChanged s ins))"
proof (cases "''editing'' \<in> set (map inputName ins)")
  case True
  then show ?thesis
    by (simp add: inputsChanged_def ngOnChanges_def drawImages_fields resetInteractions_def)
next
  case False
  then have "inputsChanged s ins = foldl assignInput s ins"
    by (simp add: inputsChanged_def ngOnChanges_def)
  with assms False show ?thesis
    using foldl_assignInput_transient[of s ins] foldl_assignInput_editing[of ins s] by auto
qed

lemma onMouseDown_editing: "editing s \<Longrightarrow> editing (onMouseDown s e)"
  by (cases e)
     (simp add: onMouseDown_def Let_def emitImagesChange_fields drawImages_fields
        split: prod.splits)

lemma onMouseDown_disabled: "\<not> editing s \<Longrightarrow> onMouseDown s e = s"
  by (simp add: onMouseDown_def)

lemma onMouseMove_transient:
  assumes "onMouseMove s e = Inr s'"
  shows "editing s' = editing s \<and> selectedImageIndex s' = selectedImageIndex s \<and>
         isDragging s' = isDragging s"
proof (cases "selectedImageIndex s")
  case None
  with assms show ?thesis by (simp add: onMouseMove_None)
next
  case (Some k)
  obtain ox oy where e: "e = (ox, oy)" by (cases e)
  from onMouseMove_Inr[OF assms[unfolded e] Some] obtain im' where
    "s' = drawImages (s\<lparr>images := (images s)[nat k := im']\<rparr>)"
    by metis
  then show ?thesis by (simp add: drawImages_fields)
qed

lemma onMouseUp_idle:
  "onMouseUp s = Inr s' \<Longrightarrow> selectedImageIndex s' = None \<and> \<not> isDragging s' \<and> editing s' = editing s"
  by (auto simp: onMouseUp_def split: option.splits)

lemma dispatch_idle:
  assumes "dispatch s e = Inr s'"
    and "editing s \<or> (selectedImageIndex s = None \<and> \<not> isDragging s)"
  shows "editing s' \<or> (selectedImageIndex s' = None \<and> \<not> isDragging s')"
proof (cases e)
  case Init
  with assms show ?thesis by (auto simp: ngOnInit_def drawImages_fields)
next
  case (Inputs ins)
  with assms inputsChanged_idle[OF assms(2), of ins] show ?thesis by auto
next
  case (Drop ev)
  with assms show ?thesis by (auto split: sum.splits)
next
  case (ImgLoad h w0 h0)
  with assms show ?thesis
    by (auto simp: imgOnload_def Let_def emitImagesChange_fields drawImages_fields
        split: jsnum.splits)
next
  case (MouseDown ox oy)
  with assms show ?thesis
    by (cases "editing s") (auto simp: onMouseDown_editing onMouseDown_disabled)
next
  case (MouseMove ox oy)
  with assms onMouseMove_transient[of s "(ox, oy)" s'] show ?thesis by auto
next
  case MouseUp
  with assms onMouseUp_idle[of s s'] show ?thesis by auto
next
  case (KeyDown key)
  with assms show ?thesis by (auto simp: onKeyDown_def split: if_splits)
next
  case (KeyUp key)
  with assms show ?thesis by (auto simp: onKeyUp_def split: if_splits)
next
  case (SetImages imgs)
  with assms show ?thesis by (auto simp: setImages_def drawImages_fields)
qed

lemma run_idle:
  assumes "run s evs = Some s'"
    and "editing s \<or> (selectedImageIndex s = None \<and> \<not> isDragging s)"
  shows "editing s' \<or> (selectedImageIndex s' = None \<and> \<not> isDragging s')"
  using assms
proof (induction evs arbitrary: s)
  case Nil
  then show ?case by simp
next
  case (Cons e evs)
  show ?case
  proof (cases "dispatch s e")
    case (Inl err)
    with Cons.prems(1) have "err = TypeError" "run s evs = Some s'"
      by (cases err; simp)+
    from Cons.IH[OF this(2) Cons.prems(2)] show ?thesis .
  next
    case (Inr s1)
    with Cons.prems(1) have r: "run s1 evs = Some s'" by simp
    from Cons.IH[OF r dispatch_idle[OF Inr Cons.prems(2)]] show ?thesis .
  qed
qed

text \<open>
  C7. In every state that a newly constructed component reaches by any sequence of events
  and in which editing is disabled, pointer-down, pointer-move and pointer-up leave the
  whole component as it is: no image is added, removed, moved, resized or marked, nothing is
  emitted and nothing is drawn. Pointer-down returns at its guard; pointer-move and
  pointer-up find no selection and no dragging flag, because the change of the \<open>editing\<close>
  input cleared them and nothing sets them while editing is disabled.
\<close>

theorem disabled_handlers_noop:
  assumes "run newComponent evs = Some s"
    and "\<not> editing s"
  shows "onMouseDown s e = s \<and> onMouseMove s e = Inr s \<and> onMouseUp s = Inr s"
proof -
  have "editing newComponent \<or>
        (selectedImageIndex newComponent = None \<and> \<not> isDragging newComponent)"
    by (simp add: newComponent_def)
  from run_idle[OF assms(1) this] assms(2)
  have i: "selectedImageIndex s = None" "\<not> isDragging s" by auto
  have "onMouseUp s = Inr s"
    using i by (simp add: onMouseUp_def)
  with assms(2) i show ?thesis
    by (simp add: onMouseDown_disabled onMouseMove_None)
qed

theorem disabled_handlers_noop_witness:
  "\<exists>s. run newComponent
          [Init, ImgLoad 1 100 40, MouseDown 95 35, Inputs [InEditing False]] = Some s \<and>
       \<not> editing s \<and> images s \<noteq> [] \<and>
       onMouseDown s (95, 35) = s \<and> onMouseMove s (20, 20) = Inr s \<and> onMouseUp s = Inr s"
proof -
  obtain s where s:
    "run newComponent [Init, ImgLoad 1 100 40, MouseDown 95 35, Inputs [InEditing False]] = Some s"
    "\<not> editing s" "images s \<noteq> []"
    by (simp add: model_defs)
  from disabled_handlers_noop[OF s(1,2)] s show ?thesis by blast
qed

subsection \<open>C4: at most one image resizing\<close>

text \<open>
  C4. The callback of the second \<^verbatim>\<open>findIndex\<close> marks an image before it is known whether
  that image is the one selected. Two 5 by 50 images are dropped and dragged to
  \<open>(100, 100)\<close>; a pointer-down at \<open>(97, 145)\<close> is inside both resize handles and outside both
  bodies, so both images are marked and none is selected.
\<close>

theorem two_images_resizing:
  "map_option (\<lambda>s. (map isResizing (images s), selectedImageIndex s))
     (run newComponent
        [Init,
         ImgLoad 1 5 50, MouseDown 3 30, MouseMove 103 130, MouseUp,
         ImgLoad 2 5 50, MouseDown 3 30, MouseMove 103 130, MouseUp,
         MouseDown 97 145])
   = Some ([Some True, Some True], Some (- 1))"
  by (simp add: model_defs)

text \<open>
  The same with images of ordinary size, when a pointer-up is missed (the button is released
  outside the canvas): the second pointer-down marks a second image and the first keeps its
  mark.
\<close>

lemma missed_pointer_up_two_resizing:
  "map_option (\<lambda>s. (map isResizing (images s), selectedImageIndex s))
     (run newComponent
        [Init, ImgLoad 1 100 100, ImgLoad 2 100 100,
         MouseDown 50 50, MouseMove 250 250, MouseUp,
         MouseDown 295 295, MouseDown 95 95])
   = Some ([Some True, Some True], Some 1)"
  by (simp add: model_defs)

end
